theory Spec2Isabelle
  imports Main
begin

section \<open>Python values used by the scripts\<close>

text \<open>
  A Python \<^verbatim>\<open>str\<close> is a sequence of Unicode code points, so a string is a list of
  naturals here, and \<open>str\<close> turns an ASCII literal into one.
\<close>

type_synonym ustring = "nat list"

definition str :: "string \<Rightarrow> ustring" where
  "str s = map of_char s"

text \<open>
  The code points for which \<^verbatim>\<open>str.isspace\<close> holds; \<^verbatim>\<open>strip()\<close> and \<^verbatim>\<open>split()\<close>
  without arguments use the same set.
\<close>

definition isspace :: "nat \<Rightarrow> bool" where
  "isspace c \<longleftrightarrow>
     (9 \<le> c \<and> c \<le> 13) \<or> (28 \<le> c \<and> c \<le> 32) \<or> c = 133 \<or> c = 160 \<or> c = 5760 \<or>
     (8192 \<le> c \<and> c \<le> 8202) \<or> c = 8232 \<or> c = 8233 \<or> c = 8239 \<or> c = 8287 \<or> c = 12288"

text \<open>\<^verbatim>\<open>s.strip()\<close>\<close>

definition strip :: "ustring \<Rightarrow> ustring" where
  "strip s = rev (dropWhile isspace (rev (dropWhile isspace s)))"

text \<open>\<^verbatim>\<open>s.startswith(p)\<close>\<close>

definition startswith :: "ustring \<Rightarrow> ustring \<Rightarrow> bool" where
  "startswith s p \<longleftrightarrow> take (length p) s = p"

text \<open>\<^verbatim>\<open>sub in s\<close>: \<open>sub\<close> starts at some position of \<open>s\<close>.\<close>

fun contains :: "ustring \<Rightarrow> ustring \<Rightarrow> bool" where
  "contains sub [] = (sub = [])"
| "contains sub (c # s) = (startswith (c # s) sub \<or> contains sub s)"

text \<open>
  \<^verbatim>\<open>s.split()\<close>: the maximal runs of non-whitespace, in order; \<open>tok\<close> is the run being
  read.
\<close>

fun split_from :: "ustring \<Rightarrow> ustring \<Rightarrow> ustring list" where
  "split_from tok [] = (if tok = [] then [] else [tok])"
| "split_from tok (c # s) =
     (if isspace c then (if tok = [] then split_from [] s else tok # split_from [] s)
      else split_from (tok @ [c]) s)"

definition split :: "ustring \<Rightarrow> ustring list" where
  "split s = split_from [] s"

text \<open>
  The exceptions the modelled code can raise. A \<^verbatim>\<open>KeyError\<close> carries the key that was
  missing.
\<close>

datatype pykey = IntKey int | StrKey ustring

datatype exn = IndexError | ValueError | KeyError pykey | PDBException

text \<open>\<^verbatim>\<open>xs[i]\<close> for a constant index \<open>i \<ge> 0\<close>.\<close>

definition getitem :: "'a list \<Rightarrow> nat \<Rightarrow> exn + 'a" where
  "getitem xs i = (if i < length xs then Inr (xs ! i) else Inl IndexError)"

text \<open>
  \<^verbatim>\<open>float(s)\<close> on a string either returns a float or raises \<^verbatim>\<open>ValueError\<close>. Which
  strings are float literals, and which float each denotes, is the interpreter's
  business: the functions below take that as the parameter \<open>fl\<close>, with \<open>None\<close> for a
  string that is no float literal. The type \<open>'f\<close> stands for Python's floats.
\<close>

definition py_float :: "(ustring \<Rightarrow> 'f option) \<Rightarrow> ustring \<Rightarrow> exn + 'f" where
  "py_float fl s = (case fl s of None \<Rightarrow> Inl ValueError | Some v \<Rightarrow> Inr v)"

type_synonym 'f coord = "'f \<times> 'f \<times> 'f"

section \<open>Positional extraction from a predicted file: \<^verbatim>\<open>parse_pdbqt\<close>\<close>

text \<open>
  The body of the \<^verbatim>\<open>try\<close> block, the same in both scripts:
  \<^verbatim>\<open>x = float(parts[6]); y = float(parts[7]); z = float(parts[8])\<close>.
  The first statement that raises ends the block.
\<close>

definition read_xyz :: "(ustring \<Rightarrow> 'f option) \<Rightarrow> ustring list \<Rightarrow> exn + 'f coord" where
  "read_xyz fl parts =
     (case getitem parts 6 of Inl e \<Rightarrow> Inl e | Inr p6 \<Rightarrow>
      case py_float fl p6 of Inl e \<Rightarrow> Inl e | Inr x \<Rightarrow>
      case getitem parts 7 of Inl e \<Rightarrow> Inl e | Inr p7 \<Rightarrow>
      case py_float fl p7 of Inl e \<Rightarrow> Inl e | Inr y \<Rightarrow>
      case getitem parts 8 of Inl e \<Rightarrow> Inl e | Inr p8 \<Rightarrow>
      case py_float fl p8 of Inl e \<Rightarrow> Inl e | Inr z \<Rightarrow> Inr (x, y, z))"

text \<open>
  The loop \<^verbatim>\<open>for line in f\<close> of \<^verbatim>\<open>parse_pdbqt\<close> in \<^verbatim>\<open>RMSD_Q.py\<close>. The file is the list
  of its lines still to be read; \<open>coords\<close> and \<open>current_ca_count\<close> are the loop's
  variables. The loop returns \<open>coords\<close> together with the lines it has not read, which
  are what \<^verbatim>\<open>break\<close> leaves in the file. The \<^verbatim>\<open>except\<close> clause catches \<^verbatim>\<open>IndexError\<close>
  and \<^verbatim>\<open>ValueError\<close> only; any other exception would leave the function.
\<close>

fun parse_pdbqt_loop_Q ::
  "(ustring \<Rightarrow> 'f option) \<Rightarrow> int \<Rightarrow> ustring list \<Rightarrow> 'f coord list \<Rightarrow> int \<Rightarrow>
     exn + ('f coord list \<times> ustring list)" where
  "parse_pdbqt_loop_Q fl len [] coords current_ca_count = Inr (coords, [])"
| "parse_pdbqt_loop_Q fl len (line # f) coords current_ca_count =
     (let line_s = strip line in
      if \<not> startswith line_s (str ''ATOM'') then
        parse_pdbqt_loop_Q fl len f coords current_ca_count
      else if \<not> contains (str '' CA '') line_s then
        parse_pdbqt_loop_Q fl len f coords current_ca_count
      else
        (case read_xyz fl (split line_s) of
           Inl e \<Rightarrow>
             if e = IndexError \<or> e = ValueError then
               parse_pdbqt_loop_Q fl len f coords current_ca_count
             else Inl e
         | Inr xyz \<Rightarrow>
             if current_ca_count + 1 \<ge> len then Inr (coords @ [xyz], f)
             else parse_pdbqt_loop_Q fl len f (coords @ [xyz]) (current_ca_count + 1)))"

definition parse_pdbqt_Q ::
  "(ustring \<Rightarrow> 'f option) \<Rightarrow> ustring list \<Rightarrow> int \<Rightarrow> exn + 'f coord list" where
  "parse_pdbqt_Q fl f len =
     (case parse_pdbqt_loop_Q fl len f [] 0 of
        Inl e \<Rightarrow> Inl e
      | Inr (coords, unread) \<Rightarrow> Inr coords)"

text \<open>The same loop and function as written in \<^verbatim>\<open>RMSD_af.py\<close>.\<close>

fun parse_pdbqt_loop_af ::
  "(ustring \<Rightarrow> 'f option) \<Rightarrow> int \<Rightarrow> ustring list \<Rightarrow> 'f coord list \<Rightarrow> int \<Rightarrow>
     exn + ('f coord list \<times> ustring list)" where
  "parse_pdbqt_loop_af fl len [] coords current_ca_count = Inr (coords, [])"
| "parse_pdbqt_loop_af fl len (line # f) coords current_ca_count =
     (let line_s = strip line in
      if \<not> startswith line_s (str ''ATOM'') then
        parse_pdbqt_loop_af fl len f coords current_ca_count
      else if \<not> contains (str '' CA '') line_s then
        parse_pdbqt_loop_af fl len f coords current_ca_count
      else
        (case read_xyz fl (split line_s) of
           Inl e \<Rightarrow>
             if e = IndexError \<or> e = ValueError then
               parse_pdbqt_loop_af fl len f coords current_ca_count
             else Inl e
         | Inr xyz \<Rightarrow>
             if current_ca_count + 1 \<ge> len then Inr (coords @ [xyz], f)
             else parse_pdbqt_loop_af fl len f (coords @ [xyz]) (current_ca_count + 1)))"

definition parse_pdbqt_af ::
  "(ustring \<Rightarrow> 'f option) \<Rightarrow> ustring list \<Rightarrow> int \<Rightarrow> exn + 'f coord list" where
  "parse_pdbqt_af fl f len =
     (case parse_pdbqt_loop_af fl len f [] 0 of
        Inl e \<Rightarrow> Inl e
      | Inr (coords, unread) \<Rightarrow> Inr coords)"

text \<open>
  What the specification calls an entry of the requested atom kind: a line of the
  stream that, stripped, starts with \<^verbatim>\<open>ATOM\<close>, contains the marker \<^verbatim>\<open>" CA "\<close> and has
  float literals in its fields 6, 7 and 8. \<open>ca_entries\<close> lists the coordinates of the
  entries of a stream in file order.
\<close>

definition ca_entry :: "(ustring \<Rightarrow> 'f option) \<Rightarrow> ustring \<Rightarrow> 'f coord option" where
  "ca_entry fl line =
     (if startswith (strip line) (str ''ATOM'') \<and> contains (str '' CA '') (strip line) then
        (case read_xyz fl (split (strip line)) of Inl e \<Rightarrow> None | Inr xyz \<Rightarrow> Some xyz)
      else None)"

definition ca_entries :: "(ustring \<Rightarrow> 'f option) \<Rightarrow> ustring list \<Rightarrow> 'f coord list" where
  "ca_entries fl f = List.map_filter (ca_entry fl) f"

text \<open>
  Two lines agree in everything \<^verbatim>\<open>parse_pdbqt\<close> reads of a line: the two markers and
  the fields 6, 7 and 8 of the stripped line. The other fields, the residue number
  (field 5 of a PDBQT atom record) among them, may differ.
\<close>

definition same_entry_fields :: "ustring \<Rightarrow> ustring \<Rightarrow> bool" where
  "same_entry_fields l l' \<longleftrightarrow>
     startswith (strip l) (str ''ATOM'') = startswith (strip l') (str ''ATOM'') \<and>
     contains (str '' CA '') (strip l) = contains (str '' CA '') (strip l') \<and>
     getitem (split (strip l)) 6 = getitem (split (strip l')) 6 \<and>
     getitem (split (strip l)) 7 = getitem (split (strip l')) 7 \<and>
     getitem (split (strip l)) 8 = getitem (split (strip l')) 8"

text \<open>
  A malformed alpha-carbon line: an \<^verbatim>\<open>ATOM\<close> line with the marker that has fewer than
  nine fields, or a field 6, 7 or 8 that is no float literal.
\<close>

definition malformed_ca_line :: "(ustring \<Rightarrow> 'f option) \<Rightarrow> ustring \<Rightarrow> bool" where
  "malformed_ca_line fl line \<longleftrightarrow>
     startswith (strip line) (str ''ATOM'') \<and> contains (str '' CA '') (strip line) \<and>
     (length (split (strip line)) < 9 \<or> fl (split (strip line) ! 6) = None \<or>
      fl (split (strip line) ! 7) = None \<or> fl (split (strip line) ! 8) = None)"

section \<open>Superposition through the library: \<^verbatim>\<open>compute_rmsd\<close>\<close>

text \<open>
  \<^verbatim>\<open>compute_rmsd\<close> wraps every coordinate tuple in an object of its local class
  \<^verbatim>\<open>DummyAtom\<close>, whose only attribute is \<open>coord\<close>. The objects live in a store: the
  list of the \<open>coord\<close> attributes of the objects created so far, an object's address
  being its index. Creating an object extends the store.
\<close>

type_synonym 'c dummy_store = "'c list"

definition DummyAtom :: "'c \<Rightarrow> 'c dummy_store \<Rightarrow> nat \<times> 'c dummy_store" where
  "DummyAtom coord h = (length h, h @ [coord])"

definition get_coord :: "'c dummy_store \<Rightarrow> nat \<Rightarrow> 'c" where
  "get_coord h a = h ! a"

text \<open>The comprehension \<^verbatim>\<open>[DummyAtom(coord) for coord in atoms]\<close>.\<close>

fun wrap_atoms :: "'c list \<Rightarrow> 'c dummy_store \<Rightarrow> nat list \<times> 'c dummy_store" where
  "wrap_atoms [] h = ([], h)"
| "wrap_atoms (coord # atoms) h =
     (let (a, h1) = DummyAtom coord h; (as, h2) = wrap_atoms atoms h1 in (a # as, h2))"

text \<open>
  \<^verbatim>\<open>Superimposer\<close> belongs to Bio.PDB, not to the repository. Its \<^verbatim>\<open>set_atoms\<close> reads
  the coordinates of the two atom lists through \<^verbatim>\<open>get_coord()\<close>, fits the moving list
  onto the fixed one in floating point and stores the residual in \<^verbatim>\<open>rms\<close>; it is the
  parameter \<open>superimpose\<close>, from the two lists of coordinates read to \<^verbatim>\<open>rms\<close> or an
  exception. \<^verbatim>\<open>compute_rmsd\<close> of \<^verbatim>\<open>RMSD_Q.py\<close>, on a store \<open>h\<close>, returns its result and
  the store it leaves.
\<close>

definition compute_rmsd_Q ::
  "('c list \<Rightarrow> 'c list \<Rightarrow> exn + 'r) \<Rightarrow> 'c list \<Rightarrow> 'c list \<Rightarrow> 'c dummy_store \<Rightarrow>
     (exn + 'r option) \<times> 'c dummy_store" where
  "compute_rmsd_Q superimpose ref_atoms alt_atoms h =
     (if length ref_atoms \<noteq> length alt_atoms \<or> length ref_atoms = 0 then (Inr None, h)
      else
        let (dummy_ref, h1) = wrap_atoms ref_atoms h;
            (dummy_alt, h2) = wrap_atoms alt_atoms h1
        in (case superimpose (map (get_coord h2) dummy_ref) (map (get_coord h2) dummy_alt) of
              Inl e \<Rightarrow> Inl e
            | Inr rms \<Rightarrow> Inr (Some rms), h2))"

text \<open>\<^verbatim>\<open>compute_rmsd\<close> of \<^verbatim>\<open>RMSD_af.py\<close>.\<close>

definition compute_rmsd_af ::
  "('c list \<Rightarrow> 'c list \<Rightarrow> exn + 'r) \<Rightarrow> 'c list \<Rightarrow> 'c list \<Rightarrow> 'c dummy_store \<Rightarrow>
     (exn + 'r option) \<times> 'c dummy_store" where
  "compute_rmsd_af superimpose ref_coords alt_coords h =
     (if length ref_coords \<noteq> length alt_coords \<or> length ref_coords = 0 then (Inr None, h)
      else
        let (dummy_ref, h1) = wrap_atoms ref_coords h;
            (dummy_alt, h2) = wrap_atoms alt_coords h1
        in (case superimpose (map (get_coord h2) dummy_ref) (map (get_coord h2) dummy_alt) of
              Inl e \<Rightarrow> Inl e
            | Inr rms \<Rightarrow> Inr (Some rms), h2))"

section \<open>Structures as the parser returns them\<close>

text \<open>
  A parsed structure is a list of models, a model a list of chains, a chain a list of
  residues, in file order. A residue has the identifier \<^verbatim>\<open>(hetero flag, sequence
  number, insertion code)\<close> and its atoms by name. The type \<open>'a\<close> of atoms is left open:
  a value holding its coordinate, or the address of an atom object in a store.
\<close>

record 'a residue =
  res_id :: "ustring \<times> int \<times> ustring"
  atoms :: "(ustring \<times> 'a) list"

record 'a chain =
  chain_name :: ustring
  chain_residues :: "'a residue list"

type_synonym 'a model = "'a chain list"

type_synonym 'a pdb_structure = "'a model list"

text \<open>\<^verbatim>\<open>residue.get_id()[1]\<close>\<close>

definition resseq :: "'a residue \<Rightarrow> int" where
  "resseq residue = fst (snd (res_id residue))"

text \<open>
  \<^verbatim>\<open>structure[i]\<close>: the model with identifier \<open>i\<close>; the parser numbers the models of a
  file from 0 in file order. \<^verbatim>\<open>model[chain_id]\<close>: the chain with that identifier. Both
  raise \<^verbatim>\<open>KeyError\<close> when there is none.
\<close>

definition structure_getitem :: "'a pdb_structure \<Rightarrow> nat \<Rightarrow> exn + 'a model" where
  "structure_getitem structure i =
     (if i < length structure then Inr (structure ! i) else Inl (KeyError (IntKey (int i))))"

definition model_getitem :: "'a model \<Rightarrow> ustring \<Rightarrow> exn + 'a chain" where
  "model_getitem model chain_id =
     (case find (\<lambda>chain. chain_name chain = chain_id) model of
        None \<Rightarrow> Inl (KeyError (StrKey chain_id))
      | Some chain \<Rightarrow> Inr chain)"

section \<open>Windowed extraction: \<^verbatim>\<open>parse_real_pdb\<close> and \<^verbatim>\<open>extract_ca_atoms\<close>\<close>

text \<open>
  The three nested loops of \<^verbatim>\<open>parse_real_pdb\<close> in \<^verbatim>\<open>RMSD_Q.py\<close>, innermost first; each
  takes the list \<open>coords\<close> built so far and returns it extended. The test
  \<^verbatim>\<open>"CA" in residue\<close> and the lookup \<^verbatim>\<open>residue["CA"]\<close> are one lookup by name.
  \<open>coord\<close> reads an atom's coordinate (\<^verbatim>\<open>tuple(atom.coord)\<close>).
\<close>

fun residue_loop_Q :: "('a \<Rightarrow> 'c) \<Rightarrow> int \<Rightarrow> int \<Rightarrow> 'a residue list \<Rightarrow> 'c list \<Rightarrow> 'c list" where
  "residue_loop_Q coord start_res end_res [] coords = coords"
| "residue_loop_Q coord start_res end_res (residue # chain) coords =
     (if start_res \<le> resseq residue \<and> resseq residue \<le> end_res then
        (case map_of (atoms residue) (str ''CA'') of
           None \<Rightarrow> residue_loop_Q coord start_res end_res chain coords
         | Some atom \<Rightarrow> residue_loop_Q coord start_res end_res chain (coords @ [coord atom]))
      else residue_loop_Q coord start_res end_res chain coords)"

fun chain_loop_Q ::
  "('a \<Rightarrow> 'c) \<Rightarrow> ustring \<Rightarrow> int \<Rightarrow> int \<Rightarrow> 'a chain list \<Rightarrow> 'c list \<Rightarrow> 'c list" where
  "chain_loop_Q coord chain_id start_res end_res [] coords = coords"
| "chain_loop_Q coord chain_id start_res end_res (chain # model) coords =
     (if chain_name chain = chain_id then
        chain_loop_Q coord chain_id start_res end_res model
          (residue_loop_Q coord start_res end_res (chain_residues chain) coords)
      else chain_loop_Q coord chain_id start_res end_res model coords)"

fun model_loop_Q ::
  "('a \<Rightarrow> 'c) \<Rightarrow> ustring \<Rightarrow> int \<Rightarrow> int \<Rightarrow> 'a pdb_structure \<Rightarrow> 'c list \<Rightarrow> 'c list" where
  "model_loop_Q coord chain_id start_res end_res [] coords = coords"
| "model_loop_Q coord chain_id start_res end_res (model # structure) coords =
     model_loop_Q coord chain_id start_res end_res structure
       (chain_loop_Q coord chain_id start_res end_res model coords)"

text \<open>
  \<^verbatim>\<open>parse_real_pdb\<close> on the structure the parser has read from \<^verbatim>\<open>pdb_path\<close>. No
  statement of its loops raises.
\<close>

definition parse_real_pdb_Q ::
  "('a \<Rightarrow> 'c) \<Rightarrow> 'a pdb_structure \<Rightarrow> ustring \<Rightarrow> int \<Rightarrow> int \<Rightarrow> exn + 'c list" where
  "parse_real_pdb_Q coord structure chain_id start_res end_res =
     Inr (model_loop_Q coord chain_id start_res end_res structure [])"

text \<open>The same function as written in \<^verbatim>\<open>RMSD_af.py\<close>.\<close>

fun residue_loop_af :: "('a \<Rightarrow> 'c) \<Rightarrow> int \<Rightarrow> int \<Rightarrow> 'a residue list \<Rightarrow> 'c list \<Rightarrow> 'c list" where
  "residue_loop_af coord start_res end_res [] coords = coords"
| "residue_loop_af coord start_res end_res (residue # chain) coords =
     (if start_res \<le> resseq residue \<and> resseq residue \<le> end_res then
        (case map_of (atoms residue) (str ''CA'') of
           None \<Rightarrow> residue_loop_af coord start_res end_res chain coords
         | Some atom \<Rightarrow> residue_loop_af coord start_res end_res chain (coords @ [coord atom]))
      else residue_loop_af coord start_res end_res chain coords)"

fun chain_loop_af ::
  "('a \<Rightarrow> 'c) \<Rightarrow> ustring \<Rightarrow> int \<Rightarrow> int \<Rightarrow> 'a chain list \<Rightarrow> 'c list \<Rightarrow> 'c list" where
  "chain_loop_af coord chain_id start_res end_res [] coords = coords"
| "chain_loop_af coord chain_id start_res end_res (chain # model) coords =
     (if chain_name chain = chain_id then
        chain_loop_af coord chain_id start_res end_res model
          (residue_loop_af coord start_res end_res (chain_residues chain) coords)
      else chain_loop_af coord chain_id start_res end_res model coords)"

fun model_loop_af ::
  "('a \<Rightarrow> 'c) \<Rightarrow> ustring \<Rightarrow> int \<Rightarrow> int \<Rightarrow> 'a pdb_structure \<Rightarrow> 'c list \<Rightarrow> 'c list" where
  "model_loop_af coord chain_id start_res end_res [] coords = coords"
| "model_loop_af coord chain_id start_res end_res (model # structure) coords =
     model_loop_af coord chain_id start_res end_res structure
       (chain_loop_af coord chain_id start_res end_res model coords)"

definition parse_real_pdb_af ::
  "('a \<Rightarrow> 'c) \<Rightarrow> 'a pdb_structure \<Rightarrow> ustring \<Rightarrow> int \<Rightarrow> int \<Rightarrow> exn + 'c list" where
  "parse_real_pdb_af coord structure chain_id start_res end_res =
     Inr (model_loop_af coord chain_id start_res end_res structure [])"

text \<open>
  \<^verbatim>\<open>extract_ca_atoms\<close> of \<^verbatim>\<open>vis_rmde.py\<close>: the loop over the residues of the chain, and
  the function, which looks the first model and the chain up by identifier and returns
  the atoms themselves.
\<close>

fun ca_atoms_loop :: "int \<Rightarrow> int \<Rightarrow> 'a residue list \<Rightarrow> 'a list \<Rightarrow> 'a list" where
  "ca_atoms_loop start_res end_res [] ca_atoms = ca_atoms"
| "ca_atoms_loop start_res end_res (residue # chain) ca_atoms =
     (if start_res \<le> resseq residue \<and> resseq residue \<le> end_res then
        (case map_of (atoms residue) (str ''CA'') of
           None \<Rightarrow> ca_atoms_loop start_res end_res chain ca_atoms
         | Some atom \<Rightarrow> ca_atoms_loop start_res end_res chain (ca_atoms @ [atom]))
      else ca_atoms_loop start_res end_res chain ca_atoms)"

definition extract_ca_atoms ::
  "'a pdb_structure \<Rightarrow> ustring \<Rightarrow> int \<Rightarrow> int \<Rightarrow> exn + 'a list" where
  "extract_ca_atoms structure chain_id start_res end_res =
     (case structure_getitem structure 0 of Inl e \<Rightarrow> Inl e | Inr model \<Rightarrow>
      case model_getitem model chain_id of Inl e \<Rightarrow> Inl e | Inr chain \<Rightarrow>
        Inr (ca_atoms_loop start_res end_res (chain_residues chain) []))"

text \<open>
  The extraction in the specification's words: of the residues of a chain, in order,
  those whose sequence number lies in the window, and of these the alpha-carbon atom
  where there is one.
\<close>

definition window_ca :: "int \<Rightarrow> int \<Rightarrow> 'a residue list \<Rightarrow> 'a list" where
  "window_ca start_res end_res chain =
     List.map_filter (\<lambda>residue. map_of (atoms residue) (str ''CA''))
       (filter (\<lambda>residue. start_res \<le> resseq residue \<and> resseq residue \<le> end_res) chain)"

text \<open>
  The coordinates \<^verbatim>\<open>parse_real_pdb\<close> collects from one model: those of the window of
  every chain of the model that has the identifier.
\<close>

definition chain_coords :: "('a \<Rightarrow> 'c) \<Rightarrow> ustring \<Rightarrow> int \<Rightarrow> int \<Rightarrow> 'a model \<Rightarrow> 'c list" where
  "chain_coords coord chain_id start_res end_res model =
     concat (map (\<lambda>chain. map coord (window_ca start_res end_res (chain_residues chain)))
       (filter (\<lambda>chain. chain_name chain = chain_id) model))"

section \<open>The alignment of \<^verbatim>\<open>vis_rmde.py\<close>\<close>





section \<open>Example inputs\<close>

text \<open>
  A float parser for the examples: it reads an unsigned decimal integer, as
  \<^verbatim>\<open>float\<close> does on such a string, and rejects everything else. It is used on tokens of
  digits and on tokens that are no float literals only.
\<close>

definition digit_float :: "ustring \<Rightarrow> int option" where
  "digit_float s =
     (if s \<noteq> [] \<and> list_all (\<lambda>c. 48 \<le> c \<and> c \<le> 57) s
      then Some (foldl (\<lambda>v c. 10 * v + (int c - 48)) 0 s) else None)"

text \<open>
  A predicted file: a remark, a nitrogen atom, an alpha-carbon entry, an alpha-carbon
  line with a field that is no number, one with eight fields only, and two more
  entries. The residue numbers of the entries (field 5) are 0, 3 and 1.
\<close>

definition pdbqt_example :: "ustring list" where
  "pdbqt_example =
     [str ''REMARK  predicted fragment'' @ [10],
      str ''ATOM 1 N GLY A 0 9 9 9 0 0 N'' @ [10],
      str ''ATOM 2 CA GLY A 0 1 2 3 0 0 C'' @ [10],
      str ''ATOM 3 CA ALA A 1 x 5 6 0 0 C'' @ [10],
      str ''ATOM 4 CA ALA A 2 4 5'' @ [10],
      str ''  ATOM 5 CA SER A 3 4 5 6 0 0 C'' @ [10],
      str ''ATOM 6 CA THR A 1 7 8 9 0 0 C'' @ [10]]"

text \<open>The same file with other residue numbers.\<close>

definition pdbqt_renumbered :: "ustring list" where
  "pdbqt_renumbered =
     [str ''REMARK  predicted fragment'' @ [10],
      str ''ATOM 1 N GLY A 55 9 9 9 0 0 N'' @ [10],
      str ''ATOM 2 CA GLY A 55 1 2 3 0 0 C'' @ [10],
      str ''ATOM 3 CA ALA A 56 x 5 6 0 0 C'' @ [10],
      str ''ATOM 4 CA ALA A 57 4 5'' @ [10],
      str ''  ATOM 5 CA SER A 58 4 5 6 0 0 C'' @ [10],
      str ''ATOM 6 CA THR A 59 7 8 9 0 0 C'' @ [10]]"

text \<open>
  Structures whose atoms are their coordinates, in integers. \<open>plain_residue n as\<close> is
  the residue with sequence number \<open>n\<close>, no hetero flag and no insertion code.
\<close>

definition plain_residue :: "int \<Rightarrow> (ustring \<times> 'a) list \<Rightarrow> 'a residue" where
  "plain_residue n as = \<lparr>res_id = (str '' '', n, str '' ''), atoms = as\<rparr>"

text \<open>
  The chain of the specification's windowing example: residues 10 to 20, of which 15
  and 16 have no alpha-carbon atom.
\<close>

definition gap_chain :: "int coord chain" where
  "gap_chain =
     \<lparr>chain_name = str ''A'',
      chain_residues =
        map (\<lambda>n. plain_residue n
              (if n = 15 \<or> n = 16 then [(str ''N'', (n, 0, 0))]
               else [(str ''N'', (n, 0, 0)), (str ''CA'', (n, 1, 0))]))
          [10, 11, 12, 13, 14, 15, 16, 17, 18, 19, 20]\<rparr>"

text \<open>
  A chain with the residues 10 and 10A: the same sequence number, with and without an
  insertion code.
\<close>

definition insertion_chain :: "int coord chain" where
  "insertion_chain =
     \<lparr>chain_name = str ''A'',
      chain_residues =
        [\<lparr>res_id = (str '' '', 10, str '' ''), atoms = [(str ''CA'', (1, 2, 3))]\<rparr>,
         \<lparr>res_id = (str '' '', 10, str ''A''), atoms = [(str ''CA'', (4, 5, 6))]\<rparr>]\<rparr>"

text \<open>
  A structure with two models of the chain A, each with the one residue 1, as a file
  with two \<^verbatim>\<open>MODEL\<close> records gives.
\<close>

definition two_models :: "int coord pdb_structure" where
  "two_models =
     [[\<lparr>chain_name = str ''A'',
        chain_residues = [plain_residue 1 [(str ''CA'', (1, 2, 3))]]\<rparr>],
      [\<lparr>chain_name = str ''A'',
        chain_residues = [plain_residue 1 [(str ''CA'', (4, 5, 6))]]\<rparr>]]"




text \<open>
  The superposition of one point onto one point, in integers: whatever rotation is
  chosen, the fitted transformation carries the moving point onto the fixed one, so
  with the identity as rotation it is the translation by their difference, and the
  residual is 0. \<open>point_fit\<close> stands for \<^verbatim>\<open>set_atoms\<close> on such lists, \<open>translate\<close> for
  \<^verbatim>\<open>transform\<close>.
\<close>

definition point_fit :: "int coord list \<Rightarrow> int coord list \<Rightarrow> exn + int coord \<times> int" where
  "point_fit fixed moving =
     (case (fixed, moving) of
        ([(x, y, z)], [(x', y', z')]) \<Rightarrow> Inr ((x - x', y - y', z - z'), 0)
      | _ \<Rightarrow> Inl PDBException)"


text \<open>\<open>point_rms\<close> is the \<^verbatim>\<open>rms\<close> that \<^verbatim>\<open>set_atoms\<close> leaves on such lists.\<close>

definition point_rms :: "int coord list \<Rightarrow> int coord list \<Rightarrow> exn + int" where
  "point_rms fixed moving =
     (case point_fit fixed moving of Inl e \<Rightarrow> Inl e | Inr (rotran, rms) \<Rightarrow> Inr rms)"

section \<open>Properties of \<^verbatim>\<open>parse_pdbqt\<close>\<close>

lemma read_xyz_error: "read_xyz fl parts = Inl e \<Longrightarrow> e = IndexError \<or> e = ValueError"
  by (auto simp: read_xyz_def getitem_def py_float_def split: sum.splits if_splits option.splits)

lemma parse_pdbqt_loop_Q_step:
  "parse_pdbqt_loop_Q fl len (line # f) coords n =
     (case ca_entry fl line of
        None \<Rightarrow> parse_pdbqt_loop_Q fl len f coords n
      | Some xyz \<Rightarrow>
          if n + 1 \<ge> len then Inr (coords @ [xyz], f)
          else parse_pdbqt_loop_Q fl len f (coords @ [xyz]) (n + 1))"
  by (auto simp: ca_entry_def Let_def split: sum.splits dest: read_xyz_error)

lemma ca_entries_Nil: "ca_entries fl [] = []"
  by (simp add: ca_entries_def map_filter_simps)

lemma ca_entries_Cons:
  "ca_entries fl (line # f) =
     (case ca_entry fl line of None \<Rightarrow> ca_entries fl f | Some xyz \<Rightarrow> xyz # ca_entries fl f)"
  by (simp add: ca_entries_def map_filter_simps split: option.splits)

lemma ca_entries_append: "ca_entries fl (f @ g) = ca_entries fl f @ ca_entries fl g"
  by (simp add: ca_entries_def map_filter_def)

lemma parse_pdbqt_loop_af_eq:
  "parse_pdbqt_loop_af fl len f coords n = parse_pdbqt_loop_Q fl len f coords n"
  by (induction f arbitrary: coords n) (simp_all add: Let_def split: sum.splits)

lemma parse_pdbqt_af_eq: "parse_pdbqt_af fl f len = parse_pdbqt_Q fl f len"
  by (simp add: parse_pdbqt_af_def parse_pdbqt_Q_def parse_pdbqt_loop_af_eq)

lemma parse_pdbqt_loop_Q_coords:
  "\<exists>unread. parse_pdbqt_loop_Q fl len f coords n =
     Inr (coords @ take (nat (max 1 (len - n))) (ca_entries fl f), unread)"
proof (induction f arbitrary: coords n)
  case Nil
  show ?case by (simp add: ca_entries_Nil)
next
  case (Cons line f)
  show ?case
  proof (cases "ca_entry fl line")
    case None
    with Cons.IH [of coords n] show ?thesis
      by (simp add: parse_pdbqt_loop_Q_step ca_entries_Cons del: parse_pdbqt_loop_Q.simps)
  next
    case (Some xyz)
    show ?thesis
    proof (cases "n + 1 \<ge> len")
      case True
      then have "nat (max 1 (len - n)) = 1" by simp
      with Some True show ?thesis
        by (simp add: parse_pdbqt_loop_Q_step ca_entries_Cons del: parse_pdbqt_loop_Q.simps)
    next
      case False
      then have m: "nat (len - n) = Suc (nat (len - (n + 1)))" by simp
      from Cons.IH [of "coords @ [xyz]" "n + 1"] Some False show ?thesis
        by (simp add: parse_pdbqt_loop_Q_step ca_entries_Cons m del: parse_pdbqt_loop_Q.simps)
    qed
  qed
qed

lemma parse_pdbqt_loop_Q_unread:
  assumes "parse_pdbqt_loop_Q fl len f coords n = Inr (cs, unread)"
  shows "\<exists>pre. f = pre @ unread \<and> cs = coords @ ca_entries fl pre \<and>
           (length (ca_entries fl pre) < nat (max 1 (len - n)) \<and> unread = [] \<or>
            length (ca_entries fl pre) = nat (max 1 (len - n)) \<and> pre \<noteq> [] \<and>
              ca_entry fl (last pre) \<noteq> None)"
  using assms
proof (induction f arbitrary: coords n)
  case Nil
  then show ?case by (simp add: ca_entries_Nil)
next
  case (Cons line f)
  show ?case
  proof (cases "ca_entry fl line")
    case None
    with Cons.prems have "parse_pdbqt_loop_Q fl len f coords n = Inr (cs, unread)"
      by (simp add: parse_pdbqt_loop_Q_step del: parse_pdbqt_loop_Q.simps)
    from Cons.IH [OF this] obtain pre where pre: "f = pre @ unread"
      "cs = coords @ ca_entries fl pre"
      "length (ca_entries fl pre) < nat (max 1 (len - n)) \<and> unread = [] \<or>
            length (ca_entries fl pre) = nat (max 1 (len - n)) \<and> pre \<noteq> [] \<and>
              ca_entry fl (last pre) \<noteq> None" by blast
    have "ca_entries fl (line # pre) = ca_entries fl pre"
      using None by (simp add: ca_entries_Cons)
    moreover have "pre \<noteq> [] \<Longrightarrow> last (line # pre) = last pre" by simp
    ultimately show ?thesis
      using pre by (intro exI [of _ "line # pre"]) auto
  next
    case (Some xyz)
    show ?thesis
    proof (cases "n + 1 \<ge> len")
      case True
      then have m: "nat (max 1 (len - n)) = 1" by simp
      from Cons.prems Some True have "cs = coords @ [xyz]" "unread = f"
        by (simp_all add: parse_pdbqt_loop_Q_step del: parse_pdbqt_loop_Q.simps)
      with Some m show ?thesis
        by (intro exI [of _ "[line]"]) (simp add: ca_entries_Cons ca_entries_Nil)
    next
      case False
      define k where "k = nat (max 1 (len - (n + 1)))"
      from False have m: "nat (max 1 (len - n)) = Suc k" by (simp add: k_def)
      from Cons.prems Some False
      have "parse_pdbqt_loop_Q fl len f (coords @ [xyz]) (n + 1) = Inr (cs, unread)"
        by (simp add: parse_pdbqt_loop_Q_step del: parse_pdbqt_loop_Q.simps)
      from Cons.IH [OF this] obtain pre where pre: "f = pre @ unread"
        "cs = (coords @ [xyz]) @ ca_entries fl pre"
        "length (ca_entries fl pre) < k \<and> unread = [] \<or>
            length (ca_entries fl pre) = k \<and> pre \<noteq> [] \<and> ca_entry fl (last pre) \<noteq> None"
        unfolding k_def by blast
      have "ca_entries fl (line # pre) = xyz # ca_entries fl pre"
        using Some by (simp add: ca_entries_Cons)
      moreover have "pre \<noteq> [] \<Longrightarrow> last (line # pre) = last pre" by simp
      ultimately show ?thesis
        unfolding m using pre by (intro exI [of _ "line # pre"]) auto
    qed
  qed
qed

lemma parse_pdbqt_Q_entries:
  "parse_pdbqt_Q fl f len = Inr (take (nat (max 1 len)) (ca_entries fl f))"
proof -
  obtain unread where
    "parse_pdbqt_loop_Q fl len f [] 0 = Inr ([] @ take (nat (max 1 (len - 0))) (ca_entries fl f), unread)"
    using parse_pdbqt_loop_Q_coords [of fl len f "[]" 0] by blast
  then show ?thesis by (simp add: parse_pdbqt_Q_def)
qed

lemma read_xyz_fields:
  "getitem p 6 = getitem q 6 \<Longrightarrow> getitem p 7 = getitem q 7 \<Longrightarrow> getitem p 8 = getitem q 8 \<Longrightarrow>
     read_xyz fl p = read_xyz fl q"
  by (simp add: read_xyz_def split: sum.splits)

lemma same_entry_fields_entry:
  assumes "same_entry_fields l l'"
  shows "ca_entry fl l = ca_entry fl l'"
proof -
  from assms have "read_xyz fl (split (strip l)) = read_xyz fl (split (strip l'))"
    unfolding same_entry_fields_def by (intro read_xyz_fields) simp_all
  moreover from assms have
    "startswith (strip l) (str ''ATOM'') = startswith (strip l') (str ''ATOM'')"
    "contains (str '' CA '') (strip l) = contains (str '' CA '') (strip l')"
    unfolding same_entry_fields_def by simp_all
  ultimately show ?thesis unfolding ca_entry_def by simp
qed

lemma same_entry_fields_entries:
  "list_all2 same_entry_fields f f' \<Longrightarrow> ca_entries fl f = ca_entries fl f'"
proof (induction rule: list_all2_induct)
  case Nil
  show ?case by simp
next
  case (Cons l f l' f')
  then show ?case
    by (simp add: ca_entries_Cons same_entry_fields_entry [of l l' fl] split: option.splits)
qed

lemma malformed_ca_line_entry: "malformed_ca_line fl line \<Longrightarrow> ca_entry fl line = None"
  by (auto simp: malformed_ca_line_def ca_entry_def read_xyz_def getitem_def py_float_def
      split: sum.splits option.splits)

lemmas string_eval =
  str_def strip_def startswith_def split_def isspace_def getitem_def py_float_def read_xyz_def
  digit_float_def

lemma pdbqt_example_entry_values:
  "map (ca_entry digit_float) pdbqt_example =
     [None, None, Some (1, 2, 3), None, None, Some (4, 5, 6), Some (7, 8, 9)]"
  by (simp add: pdbqt_example_def ca_entry_def string_eval)

lemma pdbqt_example_entries:
  "ca_entries digit_float pdbqt_example = [(1, 2, 3), (4, 5, 6), (7, 8, 9)]"
  using pdbqt_example_entry_values by (simp add: ca_entries_def map_filter_def pdbqt_example_def)

lemma pdbqt_example_same_fields: "list_all2 same_entry_fields pdbqt_example pdbqt_renumbered"
  by (simp add: pdbqt_example_def pdbqt_renumbered_def same_entry_fields_def string_eval)

lemma pdbqt_example_malformed:
  "malformed_ca_line digit_float (pdbqt_example ! 3) \<and> malformed_ca_line digit_float (pdbqt_example ! 4)"
  by (simp add: pdbqt_example_def malformed_ca_line_def string_eval)

text \<open>
  Claim C3, as amended. The claim fails at the requested length 0, where the loop still
  appends the first entry before it compares the counter; both callers skip a segment
  of length below 1. For every atom stream \<open>f\<close>, every float reader and every requested
  length \<open>N \<ge> 1\<close>, \<^verbatim>\<open>parse_pdbqt\<close> (either script) returns the coordinates of the first \<open>N\<close>
  alpha-carbon entries in file order, all of them when there are fewer, so the output
  has \<open>min N\<close> (number of entries) elements. The scan stops at the \<open>N\<close>-th entry: the
  lines read are a prefix of the stream that ends with that entry, or the whole stream
  when it has fewer than \<open>N\<close> entries. No field but the markers and the fields 6 to 8
  has a part in it: a stream whose lines agree with those of \<open>f\<close> in these (and differ
  in the residue number, say) gives the same output.
\<close>

theorem parse_pdbqt_first_entries:
  assumes "1 \<le> N"
  shows "(\<exists>coords. parse_pdbqt_Q fl f N = Inr coords \<and> parse_pdbqt_af fl f N = Inr coords \<and>
            coords = take (nat N) (ca_entries fl f) \<and>
            length coords = min (nat N) (length (ca_entries fl f))) \<and>
         (\<exists>pre unread. f = pre @ unread \<and>
            parse_pdbqt_loop_Q fl N f [] 0 = Inr (ca_entries fl pre, unread) \<and>
            (if length (ca_entries fl f) < nat N then unread = []
             else length (ca_entries fl pre) = nat N \<and> pre \<noteq> [] \<and>
                  ca_entry fl (last pre) \<noteq> None)) \<and>
         (list_all2 same_entry_fields f f' \<longrightarrow> parse_pdbqt_Q fl f' N = parse_pdbqt_Q fl f N)"
proof (intro conjI)
  from assms have m: "nat (max 1 N) = nat N" by simp
  show "\<exists>coords. parse_pdbqt_Q fl f N = Inr coords \<and> parse_pdbqt_af fl f N = Inr coords \<and>
          coords = take (nat N) (ca_entries fl f) \<and>
          length coords = min (nat N) (length (ca_entries fl f))"
    by (simp add: parse_pdbqt_af_eq parse_pdbqt_Q_entries m min.commute)
  show "list_all2 same_entry_fields f f' \<longrightarrow> parse_pdbqt_Q fl f' N = parse_pdbqt_Q fl f N"
    by (simp add: parse_pdbqt_Q_entries same_entry_fields_entries [of f f' fl])
  obtain cs unread where run: "parse_pdbqt_loop_Q fl N f [] 0 = Inr (cs, unread)"
    using parse_pdbqt_loop_Q_coords [of fl N f "[]" 0] by blast
  from parse_pdbqt_loop_Q_unread [OF run] obtain pre where
    pre: "f = pre @ unread" "cs = ca_entries fl pre" and
    stop: "length (ca_entries fl pre) < nat N \<and> unread = [] \<or>
           length (ca_entries fl pre) = nat N \<and> pre \<noteq> [] \<and> ca_entry fl (last pre) \<noteq> None"
    using m by auto
  have len: "length (ca_entries fl f) = length (ca_entries fl pre) + length (ca_entries fl unread)"
    by (simp add: pre(1) ca_entries_append)
  have "if length (ca_entries fl f) < nat N then unread = []
        else length (ca_entries fl pre) = nat N \<and> pre \<noteq> [] \<and> ca_entry fl (last pre) \<noteq> None"
    using stop len by (auto simp: ca_entries_Nil)
  with run pre show "\<exists>pre unread. f = pre @ unread \<and>
      parse_pdbqt_loop_Q fl N f [] 0 = Inr (ca_entries fl pre, unread) \<and>
      (if length (ca_entries fl f) < nat N then unread = []
       else length (ca_entries fl pre) = nat N \<and> pre \<noteq> [] \<and> ca_entry fl (last pre) \<noteq> None)"
    by blast
qed

lemma pdbqt_example_scan:
  "parse_pdbqt_loop_Q digit_float 2 pdbqt_example [] 0 =
     Inr ([(1, 2, 3), (4, 5, 6)], [str ''ATOM 6 CA THR A 1 7 8 9 0 0 C'' @ [10]])"
  using pdbqt_example_entry_values
  by (simp add: pdbqt_example_def parse_pdbqt_loop_Q_step del: parse_pdbqt_loop_Q.simps)

theorem parse_pdbqt_first_entries_witness:
  "(1::int) \<le> 2 \<and>
   parse_pdbqt_Q digit_float pdbqt_example 2 = Inr [(1, 2, 3), (4, 5, 6)] \<and>
   parse_pdbqt_af digit_float pdbqt_example 2 = Inr [(1, 2, 3), (4, 5, 6)] \<and>
   ca_entries digit_float pdbqt_example = [(1, 2, 3), (4, 5, 6), (7, 8, 9)] \<and>
   parse_pdbqt_loop_Q digit_float 2 pdbqt_example [] 0 =
     Inr ([(1, 2, 3), (4, 5, 6)], [str ''ATOM 6 CA THR A 1 7 8 9 0 0 C'' @ [10]]) \<and>
   list_all2 same_entry_fields pdbqt_example pdbqt_renumbered \<and>
   parse_pdbqt_Q digit_float pdbqt_renumbered 2 = Inr [(1, 2, 3), (4, 5, 6)]"
  using parse_pdbqt_first_entries [of 2 digit_float pdbqt_example pdbqt_renumbered]
    pdbqt_example_entries pdbqt_example_same_fields pdbqt_example_scan
  by auto

theorem parse_pdbqt_zero_length_counterexample:
  "parse_pdbqt_Q digit_float pdbqt_example 0 = Inr [(1, 2, 3)] \<and>
   parse_pdbqt_Q digit_float pdbqt_example 0 \<noteq>
     Inr (take (nat 0) (ca_entries digit_float pdbqt_example))"
  by (simp add: parse_pdbqt_Q_entries pdbqt_example_entries)

text \<open>
  Claim C10. \<^verbatim>\<open>parse_pdbqt\<close> (either script) returns a coordinate list on every stream
  of lines, every float reader and every requested length: no exception leaves it.
  An \<^verbatim>\<open>ATOM\<close> line with the alpha-carbon marker and fewer than nine fields, or with a
  field 6, 7 or 8 that is no float literal, is skipped: the loop goes on to the next
  line with the list and the counter unchanged, and the output is the same as without
  the line, wherever the line stands.
\<close>

theorem parse_pdbqt_total:
  "(\<exists>coords. parse_pdbqt_Q fl f N = Inr coords) \<and>
   (\<exists>coords. parse_pdbqt_af fl f N = Inr coords) \<and>
   (malformed_ca_line fl line \<longrightarrow>
      parse_pdbqt_loop_Q fl N (line # f) coords n = parse_pdbqt_loop_Q fl N f coords n \<and>
      parse_pdbqt_loop_af fl N (line # f) coords n = parse_pdbqt_loop_af fl N f coords n \<and>
      parse_pdbqt_Q fl (pre @ line # f) N = parse_pdbqt_Q fl (pre @ f) N \<and>
      parse_pdbqt_af fl (pre @ line # f) N = parse_pdbqt_af fl (pre @ f) N)"
proof (intro conjI impI)
  show "\<exists>coords. parse_pdbqt_Q fl f N = Inr coords"
    by (simp add: parse_pdbqt_Q_entries)
  show "\<exists>coords. parse_pdbqt_af fl f N = Inr coords"
    by (simp add: parse_pdbqt_af_eq parse_pdbqt_Q_entries)
next
  assume "malformed_ca_line fl line"
  then have none: "ca_entry fl line = None" by (rule malformed_ca_line_entry)
  then show step: "parse_pdbqt_loop_Q fl N (line # f) coords n = parse_pdbqt_loop_Q fl N f coords n"
    by (simp add: parse_pdbqt_loop_Q_step del: parse_pdbqt_loop_Q.simps)
  then show "parse_pdbqt_loop_af fl N (line # f) coords n = parse_pdbqt_loop_af fl N f coords n"
    by (simp only: parse_pdbqt_loop_af_eq)
  from none have "ca_entries fl (pre @ line # f) = ca_entries fl (pre @ f)"
    by (simp add: ca_entries_append ca_entries_Cons)
  then show same: "parse_pdbqt_Q fl (pre @ line # f) N = parse_pdbqt_Q fl (pre @ f) N"
    by (simp add: parse_pdbqt_Q_entries)
  then show "parse_pdbqt_af fl (pre @ line # f) N = parse_pdbqt_af fl (pre @ f) N"
    by (simp only: parse_pdbqt_af_eq)
qed

theorem parse_pdbqt_total_witness:
  "malformed_ca_line digit_float (pdbqt_example ! 3) \<and>
   malformed_ca_line digit_float (pdbqt_example ! 4) \<and>
   parse_pdbqt_Q digit_float pdbqt_example 3 = Inr [(1, 2, 3), (4, 5, 6), (7, 8, 9)] \<and>
   parse_pdbqt_Q digit_float (take 3 pdbqt_example @ pdbqt_example ! 3 # drop 4 pdbqt_example) 3 =
     parse_pdbqt_Q digit_float (take 3 pdbqt_example @ drop 4 pdbqt_example) 3 \<and>
   parse_pdbqt_loop_Q digit_float 3 (pdbqt_example ! 4 # drop 5 pdbqt_example) [(1, 2, 3)] 1 =
     parse_pdbqt_loop_Q digit_float 3 (drop 5 pdbqt_example) [(1, 2, 3)] 1"
  using parse_pdbqt_total [of digit_float pdbqt_example 3 "pdbqt_example ! 3" "[]" 0 "[]"]
    parse_pdbqt_total [of digit_float "drop 4 pdbqt_example" 3 "pdbqt_example ! 3" "[]" 0
      "take 3 pdbqt_example"]
    parse_pdbqt_total [of digit_float "drop 5 pdbqt_example" 3 "pdbqt_example ! 4" "[(1, 2, 3)]" 1
      "[]"]
    pdbqt_example_malformed
  by (simp add: parse_pdbqt_Q_entries pdbqt_example_entries)

section \<open>Properties of \<^verbatim>\<open>compute_rmsd\<close>\<close>

lemma wrap_atoms_snd: "snd (wrap_atoms cs h) = h @ cs"
  by (induction cs arbitrary: h) (simp_all add: DummyAtom_def split_beta)

lemma wrap_atoms_read: "map (get_coord (h @ cs @ r)) (fst (wrap_atoms cs h)) = cs"
proof (induction cs arbitrary: h)
  case Nil
  show ?case by simp
next
  case (Cons c cs)
  have "map (get_coord ((h @ [c]) @ cs @ r)) (fst (wrap_atoms cs (h @ [c]))) = cs"
    by (rule Cons.IH)
  moreover have "get_coord (h @ c # cs @ r) (length h) = c"
    by (simp add: get_coord_def)
  ultimately show ?case
    by (simp add: DummyAtom_def split_beta)
qed

lemma compute_rmsd_Q_value:
  assumes "length ref_atoms = length alt_atoms" "ref_atoms \<noteq> []"
  shows "compute_rmsd_Q superimpose ref_atoms alt_atoms h =
           (case superimpose ref_atoms alt_atoms of Inl e \<Rightarrow> Inl e | Inr rms \<Rightarrow> Inr (Some rms),
            h @ ref_atoms @ alt_atoms)"
proof -
  have ref: "map (get_coord (h @ ref_atoms @ alt_atoms)) (fst (wrap_atoms ref_atoms h)) = ref_atoms"
    by (rule wrap_atoms_read)
  have "map (get_coord ((h @ ref_atoms) @ alt_atoms @ []))
          (fst (wrap_atoms alt_atoms (h @ ref_atoms))) = alt_atoms"
    by (rule wrap_atoms_read)
  then have alt: "map (get_coord (h @ ref_atoms @ alt_atoms))
          (fst (wrap_atoms alt_atoms (h @ ref_atoms))) = alt_atoms"
    by simp
  from assms have guard: "\<not> (length ref_atoms \<noteq> length alt_atoms \<or> length ref_atoms = 0)"
    by auto
  show ?thesis
    unfolding compute_rmsd_Q_def
    by (simp only: guard if_False split_beta Let_def wrap_atoms_snd ref alt append_assoc)
qed

lemma compute_rmsd_af_eq:
  "compute_rmsd_af superimpose ref_coords alt_coords h =
     compute_rmsd_Q superimpose ref_coords alt_coords h"
  by (simp add: compute_rmsd_af_def compute_rmsd_Q_def)

text \<open>
  Claim C1. Whenever the two coordinate lists have unequal lengths or either is empty,
  \<^verbatim>\<open>compute_rmsd\<close> (either script) returns \<^verbatim>\<open>None\<close>: it raises nothing, creates no
  object and does not call the library.
\<close>

theorem compute_rmsd_no_result:
  assumes "length ref_atoms \<noteq> length alt_atoms \<or> ref_atoms = [] \<or> alt_atoms = []"
  shows "compute_rmsd_Q superimpose ref_atoms alt_atoms h = (Inr None, h) \<and>
         compute_rmsd_af superimpose ref_atoms alt_atoms h = (Inr None, h)"
proof -
  from assms have "length ref_atoms \<noteq> length alt_atoms \<or> length ref_atoms = 0"
    by auto
  then show ?thesis
    by (simp add: compute_rmsd_Q_def compute_rmsd_af_def)
qed

theorem compute_rmsd_no_result_witness:
  "compute_rmsd_Q point_rms [(0, 0, 0), (1, 0, 0), (2, 0, 0), (3, 0, 0), (4, 0, 0), (5, 0, 0)]
       [(0, 0, 0), (1, 0, 0), (2, 0, 0), (3, 0, 0), (4, 0, 0)] [] = (Inr None, []) \<and>
   compute_rmsd_af point_rms [(0, 0, 0), (1, 0, 0), (2, 0, 0), (3, 0, 0), (4, 0, 0), (5, 0, 0)]
       [(0, 0, 0), (1, 0, 0), (2, 0, 0), (3, 0, 0), (4, 0, 0)] [] = (Inr None, []) \<and>
   compute_rmsd_Q point_rms [] [] [] = (Inr None, []) \<and>
   compute_rmsd_Q point_rms [(0, 0, 0)] [] [] = (Inr None, [])"
  using compute_rmsd_no_result [of "[(0, 0, 0), (1, 0, 0), (2, 0, 0), (3, 0, 0), (4, 0, 0), (5, 0, 0)]"
      "[(0, 0, 0), (1, 0, 0), (2, 0, 0), (3, 0, 0), (4, 0, 0)]" point_rms "[]"]
    compute_rmsd_no_result [of "[]" "[]" point_rms "[]"]
    compute_rmsd_no_result [of "[(0, 0, 0)]" "[]" point_rms "[]"]
  by simp

text \<open>
  Claim C9. The two copies agree: on every stream, float reader and length,
  \<^verbatim>\<open>parse_pdbqt\<close> of \<^verbatim>\<open>RMSD_af.py\<close> returns what \<^verbatim>\<open>parse_pdbqt\<close> of \<^verbatim>\<open>RMSD_Q.py\<close> returns, and
  on every pair of coordinate lists (and every superimposer and store) so do the two
  \<^verbatim>\<open>compute_rmsd\<close>.
\<close>

theorem scripts_agree:
  "parse_pdbqt_af fl f N = parse_pdbqt_Q fl f N \<and>
   compute_rmsd_af superimpose ref_coords alt_coords h =
     compute_rmsd_Q superimpose ref_coords alt_coords h"
  by (simp add: parse_pdbqt_af_eq compute_rmsd_af_eq)

theorem scripts_agree_witness:
  "parse_pdbqt_af digit_float pdbqt_example 2 = Inr [(1, 2, 3), (4, 5, 6)] \<and>
   parse_pdbqt_Q digit_float pdbqt_example 2 = Inr [(1, 2, 3), (4, 5, 6)] \<and>
   compute_rmsd_af point_rms [(1, 0, 0)] [(0, 0, 0)] [] = (Inr (Some 0), [(1, 0, 0), (0, 0, 0)]) \<and>
   compute_rmsd_Q point_rms [(1, 0, 0)] [(0, 0, 0)] [] = (Inr (Some 0), [(1, 0, 0), (0, 0, 0)])"
  using scripts_agree [of digit_float pdbqt_example 2 point_rms "[(1, 0, 0)]" "[(0, 0, 0)]" "[]"]
  by (simp add: parse_pdbqt_Q_entries pdbqt_example_entries compute_rmsd_Q_value
      point_rms_def point_fit_def)

section \<open>Properties of the windowed extraction\<close>

lemma window_ca_Nil: "window_ca s e [] = []"
  by (simp add: window_ca_def map_filter_simps)

lemma window_ca_Cons:
  "window_ca s e (r # rs) =
     (if s \<le> resseq r \<and> resseq r \<le> e then
        (case map_of (atoms r) (str ''CA'') of None \<Rightarrow> window_ca s e rs
         | Some a \<Rightarrow> a # window_ca s e rs)
      else window_ca s e rs)"
  by (simp add: window_ca_def map_filter_simps split: option.splits)

lemma residue_loop_Q_window:
  "residue_loop_Q coord s e rs coords = coords @ map coord (window_ca s e rs)"
  by (induction rs arbitrary: coords) (simp_all add: window_ca_Nil window_ca_Cons split: option.splits)

lemma residue_loop_af_eq: "residue_loop_af coord s e rs coords = residue_loop_Q coord s e rs coords"
  by (induction rs arbitrary: coords) (simp_all split: option.splits)

lemma ca_atoms_loop_window: "ca_atoms_loop s e rs acc = acc @ window_ca s e rs"
  by (induction rs arbitrary: acc) (simp_all add: window_ca_Nil window_ca_Cons split: option.splits)

lemma chain_loop_Q_window:
  "chain_loop_Q coord cid s e m coords = coords @ chain_coords coord cid s e m"
  by (induction m arbitrary: coords) (simp_all add: chain_coords_def residue_loop_Q_window)

lemma chain_loop_af_eq: "chain_loop_af coord cid s e m coords = chain_loop_Q coord cid s e m coords"
  by (induction m arbitrary: coords) (simp_all add: residue_loop_af_eq)

lemma model_loop_Q_window:
  "model_loop_Q coord cid s e S coords = coords @ concat (map (chain_coords coord cid s e) S)"
  by (induction S arbitrary: coords) (simp_all add: chain_loop_Q_window)

lemma model_loop_af_eq: "model_loop_af coord cid s e S coords = model_loop_Q coord cid s e S coords"
  by (induction S arbitrary: coords) (simp_all add: chain_loop_af_eq)

lemma parse_real_pdb_af_eq: "parse_real_pdb_af coord S cid s e = parse_real_pdb_Q coord S cid s e"
  by (simp add: parse_real_pdb_af_def parse_real_pdb_Q_def model_loop_af_eq)

lemma find_filter_distinct:
  "distinct (map f xs) \<Longrightarrow> find (\<lambda>x. f x = k) xs = Some y \<Longrightarrow> filter (\<lambda>x. f x = k) xs = [y]"
proof (induction xs)
  case Nil
  then show ?case by simp
next
  case (Cons x xs)
  show ?case
  proof (cases "f x = k")
    case True
    with Cons.prems have "y = x" by simp
    moreover from Cons.prems have "f x \<notin> f ` set xs" by simp
    with True have "\<forall>z \<in> set xs. f z \<noteq> k" by blast
    then have "filter (\<lambda>x. f x = k) xs = []" by (simp add: filter_empty_conv)
    ultimately show ?thesis using True by simp
  next
    case False
    with Cons show ?thesis by simp
  qed
qed

lemma window_ca_length_filter:
  "length (window_ca s e rs) \<le> length (filter (\<lambda>r. s \<le> resseq r \<and> resseq r \<le> e) rs)"
  by (induction rs) (simp_all add: window_ca_Nil window_ca_Cons split: option.splits)

lemma window_filter_bound:
  assumes "distinct (map resseq rs)"
  shows "int (length (filter (\<lambda>r. s \<le> resseq r \<and> resseq r \<le> e) rs)) \<le> max 0 (e - s + 1)"
proof -
  let ?ws = "filter (\<lambda>r. s \<le> resseq r \<and> resseq r \<le> e) rs"
  have d: "distinct (map resseq ?ws)" using assms by (rule distinct_map_filter)
  have sub: "set (map resseq ?ws) \<subseteq> {s..e}" by auto
  have "length ?ws = length (map resseq ?ws)" by simp
  also have "\<dots> = card (set (map resseq ?ws))" using d by (simp only: distinct_card)
  also have "\<dots> \<le> card {s..e}" using sub by (intro card_mono) simp_all
  finally have "length ?ws \<le> card {s..e}" .
  then show ?thesis by simp
qed

lemma window_ca_missing:
  assumes "r \<in> set rs" "s \<le> resseq r" "resseq r \<le> e" "map_of (atoms r) (str ''CA'') = None"
  shows "length (window_ca s e rs) < length (filter (\<lambda>r. s \<le> resseq r \<and> resseq r \<le> e) rs)"
  using assms
proof (induction rs)
  case Nil
  then show ?case by simp
next
  case (Cons x rs)
  show ?case
  proof (cases "x = r")
    case True
    with Cons.prems window_ca_length_filter [of s e rs] show ?thesis
      by (simp add: window_ca_Cons)
  next
    case False
    with Cons have "length (window_ca s e rs) < length (filter (\<lambda>r. s \<le> resseq r \<and> resseq r \<le> e) rs)"
      by simp
    then show ?thesis by (simp add: window_ca_Cons split: option.splits)
  qed
qed

lemma parse_real_pdb_Q_window:
  "parse_real_pdb_Q coord structure chain_id s e =
     Inr (concat (map (chain_coords coord chain_id s e) structure))"
  by (simp add: parse_real_pdb_Q_def model_loop_Q_window)

lemma chain_coords_found:
  assumes "distinct (map chain_name model)" "model_getitem model chain_id = Inr chain"
  shows "chain_coords coord chain_id s e model = map coord (window_ca s e (chain_residues chain))"
proof -
  from assms(2) have "find (\<lambda>c. chain_name c = chain_id) model = Some chain"
    by (simp add: model_getitem_def split: option.splits)
  with assms(1) have "filter (\<lambda>c. chain_name c = chain_id) model = [chain]"
    by (rule find_filter_distinct)
  then show ?thesis by (simp add: chain_coords_def)
qed

lemma chain_coords_missing:
  assumes "\<forall>chain \<in> set model. chain_name chain \<noteq> chain_id"
  shows "chain_coords coord chain_id s e model = []"
proof -
  from assms have "filter (\<lambda>c. chain_name c = chain_id) model = []"
    by (simp add: filter_empty_conv)
  then show ?thesis by (simp add: chain_coords_def)
qed

lemma model_getitem_missing:
  assumes "\<forall>chain \<in> set model. chain_name chain \<noteq> chain_id"
  shows "model_getitem model chain_id = Inl (KeyError (StrKey chain_id))"
proof -
  from assms have "find (\<lambda>c. chain_name c = chain_id) model = None"
    by (simp add: find_None_iff)
  then show ?thesis by (simp add: model_getitem_def)
qed

lemma extract_ca_atoms_window:
  assumes "model_getitem model chain_id = Inr chain"
  shows "extract_ca_atoms (model # models) chain_id s e = Inr (window_ca s e (chain_residues chain))"
  using assms by (simp add: extract_ca_atoms_def structure_getitem_def ca_atoms_loop_window)

lemma window_ca_bound:
  assumes "distinct (map resseq rs)" "s \<le> e"
  shows "int (length (window_ca s e rs)) \<le> e - s + 1"
proof -
  have "int (length (window_ca s e rs)) \<le>
      int (length (filter (\<lambda>r. s \<le> resseq r \<and> resseq r \<le> e) rs))"
    using window_ca_length_filter [of s e rs] by simp
  also have "\<dots> \<le> max 0 (e - s + 1)" using assms(1) by (rule window_filter_bound)
  also have "\<dots> = e - s + 1" using assms(2) by simp
  finally show ?thesis .
qed

lemma window_ca_strict:
  assumes "distinct (map resseq rs)" "s \<le> e"
    and "r \<in> set rs" "s \<le> resseq r" "resseq r \<le> e" "map_of (atoms r) (str ''CA'') = None"
  shows "int (length (window_ca s e rs)) < e - s + 1"
proof -
  have "int (length (window_ca s e rs)) <
      int (length (filter (\<lambda>r. s \<le> resseq r \<and> resseq r \<le> e) rs))"
    using window_ca_missing [OF assms(3-6)] by simp
  also have "\<dots> \<le> max 0 (e - s + 1)" using assms(1) by (rule window_filter_bound)
  also have "\<dots> = e - s + 1" using assms(2) by simp
  finally show ?thesis .
qed

lemmas structure_eval =
  extract_ca_atoms_def structure_getitem_def model_getitem_def plain_residue_def resseq_def
  str_def

lemma gap_chain_window:
  "window_ca 10 20 (chain_residues gap_chain) =
     [(10, 1, 0), (11, 1, 0), (12, 1, 0), (13, 1, 0), (14, 1, 0), (17, 1, 0), (18, 1, 0),
      (19, 1, 0), (20, 1, 0)]"
  by (simp add: gap_chain_def window_ca_Cons window_ca_Nil structure_eval)

lemma gap_chain_distinct: "distinct (map resseq (chain_residues gap_chain))"
  by (simp add: gap_chain_def structure_eval)

lemma gap_chain_getitem: "model_getitem [gap_chain] (str ''A'') = Inr gap_chain"
  by (simp add: model_getitem_def gap_chain_def)

text \<open>
  Claim C2, as amended. The claim's bound fails for a chain in which two residues share
  a sequence number (10 and 10A): the extraction compares sequence numbers only, and
  returns both. For every chain and every window, \<^verbatim>\<open>extract_ca_atoms\<close> on a structure
  whose first model has the named chain returns exactly the alpha-carbon atoms of the
  residues of that chain whose sequence number lies in the window, in the order of the
  residues, skipping residues that have none; \<^verbatim>\<open>parse_real_pdb\<close> (either script), on a
  structure of one model, returns the positions of the same atoms. When \<open>start \<le> end\<close>
  and no two residues of the chain have the same sequence number, the output has at
  most \<open>end - start + 1\<close> elements, and fewer when a residue of the window lacks the
  atom.
\<close>

theorem windowed_extraction:
  assumes "model_getitem model chain_id = Inr chain"
  shows "extract_ca_atoms (model # models) chain_id start_res end_res =
           Inr (window_ca start_res end_res (chain_residues chain)) \<and>
         (distinct (map chain_name model) \<longrightarrow>
            parse_real_pdb_Q coord [model] chain_id start_res end_res =
              Inr (map coord (window_ca start_res end_res (chain_residues chain))) \<and>
            parse_real_pdb_af coord [model] chain_id start_res end_res =
              Inr (map coord (window_ca start_res end_res (chain_residues chain)))) \<and>
         (start_res \<le> end_res \<and> distinct (map resseq (chain_residues chain)) \<longrightarrow>
            int (length (window_ca start_res end_res (chain_residues chain)))
              \<le> end_res - start_res + 1 \<and>
            ((\<exists>residue \<in> set (chain_residues chain).
                start_res \<le> resseq residue \<and> resseq residue \<le> end_res \<and>
                map_of (atoms residue) (str ''CA'') = None) \<longrightarrow>
             int (length (window_ca start_res end_res (chain_residues chain)))
               < end_res - start_res + 1))"
proof (intro conjI impI)
  show "extract_ca_atoms (model # models) chain_id start_res end_res =
      Inr (window_ca start_res end_res (chain_residues chain))"
    using assms by (rule extract_ca_atoms_window)
next
  assume "distinct (map chain_name model)"
  then have "chain_coords coord chain_id start_res end_res model =
      map coord (window_ca start_res end_res (chain_residues chain))"
    using assms by (rule chain_coords_found)
  then show "parse_real_pdb_Q coord [model] chain_id start_res end_res =
      Inr (map coord (window_ca start_res end_res (chain_residues chain)))"
    by (simp add: parse_real_pdb_Q_window)
  then show "parse_real_pdb_af coord [model] chain_id start_res end_res =
      Inr (map coord (window_ca start_res end_res (chain_residues chain)))"
    by (simp only: parse_real_pdb_af_eq)
next
  assume "start_res \<le> end_res \<and> distinct (map resseq (chain_residues chain))"
  then show "int (length (window_ca start_res end_res (chain_residues chain)))
      \<le> end_res - start_res + 1"
    by (simp add: window_ca_bound)
next
  assume "start_res \<le> end_res \<and> distinct (map resseq (chain_residues chain))"
    and "\<exists>residue \<in> set (chain_residues chain).
          start_res \<le> resseq residue \<and> resseq residue \<le> end_res \<and>
          map_of (atoms residue) (str ''CA'') = None"
  then show "int (length (window_ca start_res end_res (chain_residues chain)))
      < end_res - start_res + 1"
    by (blast intro: window_ca_strict)
qed

theorem windowed_extraction_witness:
  "model_getitem [gap_chain] (str ''A'') = Inr gap_chain \<and>
   distinct (map chain_name [gap_chain]) \<and>
   distinct (map resseq (chain_residues gap_chain)) \<and>
   extract_ca_atoms [[gap_chain]] (str ''A'') 10 20 =
     Inr [(10, 1, 0), (11, 1, 0), (12, 1, 0), (13, 1, 0), (14, 1, 0), (17, 1, 0), (18, 1, 0),
          (19, 1, 0), (20, 1, 0)] \<and>
   parse_real_pdb_Q (\<lambda>atom. atom) [[gap_chain]] (str ''A'') 10 20 =
     Inr [(10, 1, 0), (11, 1, 0), (12, 1, 0), (13, 1, 0), (14, 1, 0), (17, 1, 0), (18, 1, 0),
          (19, 1, 0), (20, 1, 0)] \<and>
   parse_real_pdb_af (\<lambda>atom. atom) [[gap_chain]] (str ''A'') 10 20 =
     Inr [(10, 1, 0), (11, 1, 0), (12, 1, 0), (13, 1, 0), (14, 1, 0), (17, 1, 0), (18, 1, 0),
          (19, 1, 0), (20, 1, 0)] \<and>
   int (length (window_ca 10 20 (chain_residues gap_chain))) < 20 - 10 + 1"
  using windowed_extraction [OF gap_chain_getitem, of "[]" 10 20 "\<lambda>atom. atom"]
    gap_chain_window gap_chain_distinct gap_chain_getitem
  by simp

theorem windowed_extraction_counterexample:
  "extract_ca_atoms [[insertion_chain]] (str ''A'') 10 10 = Inr [(1, 2, 3), (4, 5, 6)] \<and>
   parse_real_pdb_Q (\<lambda>atom. atom) [[insertion_chain]] (str ''A'') 10 10 =
     Inr [(1, 2, 3), (4, 5, 6)] \<and>
   int (length [(1, 2, 3), (4, 5, 6) :: int coord]) > 10 - 10 + 1"
  by (simp add: insertion_chain_def structure_eval parse_real_pdb_Q_def)

text \<open>
  Claim C4, as amended. The claim fails for \<^verbatim>\<open>parse_real_pdb\<close>, which finds no chain to
  loop over and returns the empty list. For every structure and every chain identifier
  that matches no chain of it, \<^verbatim>\<open>extract_ca_atoms\<close> fails with the \<^verbatim>\<open>KeyError\<close> of the
  chain lookup, which carries the identifier (and with that of the model lookup when
  the structure has no model), and \<^verbatim>\<open>parse_real_pdb\<close> (either script) returns the empty
  coordinate list.
\<close>

theorem missing_chain:
  assumes "\<forall>model \<in> set structure. \<forall>chain \<in> set model. chain_name chain \<noteq> chain_id"
  shows "extract_ca_atoms structure chain_id start_res end_res =
           Inl (KeyError (if structure = [] then IntKey 0 else StrKey chain_id)) \<and>
         parse_real_pdb_Q coord structure chain_id start_res end_res = Inr [] \<and>
         parse_real_pdb_af coord structure chain_id start_res end_res = Inr []"
proof (intro conjI)
  show "extract_ca_atoms structure chain_id start_res end_res =
      Inl (KeyError (if structure = [] then IntKey 0 else StrKey chain_id))"
  proof (cases "structure")
    case Nil
    then show ?thesis by (simp add: extract_ca_atoms_def structure_getitem_def)
  next
    case (Cons model models)
    with assms have "model_getitem model chain_id = Inl (KeyError (StrKey chain_id))"
      by (intro model_getitem_missing) simp
    with Cons show ?thesis by (simp add: extract_ca_atoms_def structure_getitem_def)
  qed
  from assms have "\<forall>model \<in> set structure. chain_coords coord chain_id start_res end_res model = []"
    by (simp add: chain_coords_missing)
  then show "parse_real_pdb_Q coord structure chain_id start_res end_res = Inr []"
    by (simp add: parse_real_pdb_Q_window)
  then show "parse_real_pdb_af coord structure chain_id start_res end_res = Inr []"
    by (simp only: parse_real_pdb_af_eq)
qed

theorem missing_chain_witness:
  "extract_ca_atoms two_models (str ''B'') 1 1 = Inl (KeyError (StrKey (str ''B''))) \<and>
   parse_real_pdb_Q (\<lambda>atom. atom) two_models (str ''B'') 1 1 = Inr [] \<and>
   parse_real_pdb_af (\<lambda>atom. atom) two_models (str ''B'') 1 1 = Inr []"
proof -
  have none: "\<forall>model \<in> set two_models. \<forall>chain \<in> set model. chain_name chain \<noteq> str ''B''"
    by (simp add: two_models_def str_def)
  have "two_models \<noteq> []" by (simp add: two_models_def)
  with missing_chain [OF none, of 1 1 "\<lambda>atom. atom"] show ?thesis by simp
qed

theorem missing_chain_counterexample:
  "parse_real_pdb_Q (\<lambda>atom. atom) two_models (str ''B'') 1 1 = Inr [] \<and>
   parse_real_pdb_af (\<lambda>atom. atom) two_models (str ''B'') 1 1 = Inr []"
  by (simp add: two_models_def parse_real_pdb_Q_def parse_real_pdb_af_def str_def)

text \<open>
  Claim C5, on a structure with two models of the chain A. \<^verbatim>\<open>parse_real_pdb\<close> (either
  script) loops over every model and returns the alpha carbon of residue 1 of both
  models, two coordinates, where the first model alone gives one; \<^verbatim>\<open>extract_ca_atoms\<close>
  reads the first model only.
\<close>

theorem parse_real_pdb_reads_every_model:
  "parse_real_pdb_Q (\<lambda>atom. atom) two_models (str ''A'') 1 1 = Inr [(1, 2, 3), (4, 5, 6)] \<and>
   parse_real_pdb_af (\<lambda>atom. atom) two_models (str ''A'') 1 1 = Inr [(1, 2, 3), (4, 5, 6)] \<and>
   parse_real_pdb_Q (\<lambda>atom. atom) (take 1 two_models) (str ''A'') 1 1 = Inr [(1, 2, 3)] \<and>
   parse_real_pdb_af (\<lambda>atom. atom) (take 1 two_models) (str ''A'') 1 1 = Inr [(1, 2, 3)] \<and>
   extract_ca_atoms two_models (str ''A'') 1 1 = Inr [(1, 2, 3)]"
  by (simp add: two_models_def parse_real_pdb_Q_def parse_real_pdb_af_def structure_eval)

section \<open>Effects of the alignment on the store\<close>







end
